theory Spec2Isabelle
  imports Complex_Main "HOL-Library.Multiset"
begin

section \<open>The workspace of raster maps\<close>

text \<open>
  The scripts \<^verbatim>\<open>r.erosion.py\<close> and \<^verbatim>\<open>r.erosion.rfactor.py\<close> drive an external
  raster engine: every step is a \<^verbatim>\<open>gscript.run_command\<close> that reads and writes
  named raster maps of the current mapset. The mapset is modelled as a map from names to
  rasters, a raster as a function from the cells of the current region to cell values, and
  a cell value as \<open>real option\<close>, with \<open>None\<close> for the engine's NULL (no data).
  Cell values are real numbers: the rounding of the engine's double-precision arithmetic
  is not modelled.
\<close>

type_synonym cell = "nat \<times> nat"
type_synonym raster = "cell \<Rightarrow> real option"
type_synonym mapset = "string \<rightharpoonup> raster"

text \<open>The only exception the scripts name: a module that ends with a non-zero status.\<close>

datatype exn = CalledModuleError

text \<open>
  A command takes the mapset and returns its result, or the exception it raised, together
  with the mapset it leaves behind (a failed step does not undo the steps before it).
\<close>

type_synonym 'a cmd = "mapset \<Rightarrow> (exn + 'a) \<times> mapset"

definition ret :: "'a \<Rightarrow> 'a cmd" where
  "ret x ws = (Inr x, ws)"

definition bind :: "'a cmd \<Rightarrow> ('a \<Rightarrow> 'b cmd) \<Rightarrow> 'b cmd" where
  "bind m f ws = (case m ws of (Inl e, ws') \<Rightarrow> (Inl e, ws') | (Inr x, ws') \<Rightarrow> f x ws')"

text \<open>Statements one after the other; the first exception ends the sequence.\<close>

fun seq :: "unit cmd list \<Rightarrow> unit cmd" where
  "seq [] ws = (Inr (), ws)"
| "seq (c # cs) ws = (case c ws of (Inl e, ws') \<Rightarrow> (Inl e, ws') | (Inr _, ws') \<Rightarrow> seq cs ws')"

section \<open>The external engine\<close>

text \<open>
  The moving-window and hydrological modules are not part of the repository; what they
  compute is a parameter of the model. \<open>remove_strict\<close> says whether \<^verbatim>\<open>g.remove\<close> ends
  with a non-zero status when one of the names it is given does not exist.
\<close>

record engine =
  slope_of :: "raster \<Rightarrow> raster"
  aspect_of :: "raster \<Rightarrow> raster"
  dx_of :: "raster \<Rightarrow> raster"
  dy_of :: "raster \<Rightarrow> raster"
  grow_distance :: "raster \<Rightarrow> raster"
  accumulation_of :: "raster \<Rightarrow> raster"
  nsres :: real
  remove_strict :: bool

subsection \<open>Raster algebra\<close>

text \<open>
  The expressions the scripts build by text substitution, after parsing. \<open>Blank\<close> is the
  empty text in the place of an operand: what \<^verbatim>\<open>format\<close> substitutes for an option that
  was not given.
\<close>

datatype expr =
    Lit real
  | Map string
  | Blank
  | Add expr expr
  | Sub expr expr
  | Mul expr expr
  | Div expr expr
  | Pow expr expr
  | Sin expr
  | Cos expr
  | Exp expr

definition lift2 :: "(real \<Rightarrow> real \<Rightarrow> real) \<Rightarrow> real option \<Rightarrow> real option \<Rightarrow> real option" where
  "lift2 f a b = (case a of None \<Rightarrow> None | Some x \<Rightarrow> (case b of None \<Rightarrow> None | Some y \<Rightarrow> Some (f x y)))"

definition div_cell :: "real option \<Rightarrow> real option \<Rightarrow> real option" where
  "div_cell a b = (case a of None \<Rightarrow> None | Some x \<Rightarrow>
     (case b of None \<Rightarrow> None | Some y \<Rightarrow> if y = 0 then None else Some (x / y)))"

definition pow_real :: "real \<Rightarrow> real \<Rightarrow> real option" where
  "pow_real x y =
     (if x < 0 then (if y = of_int \<lceil>y\<rceil> then Some (power_int x \<lceil>y\<rceil>) else None)
      else if x = 0 then (if y < 0 then None else if y = 0 then Some 1 else Some 0)
      else Some (x powr y))"

definition pow_cell :: "real option \<Rightarrow> real option \<Rightarrow> real option" where
  "pow_cell a b = (case a of None \<Rightarrow> None | Some x \<Rightarrow>
     (case b of None \<Rightarrow> None | Some y \<Rightarrow> pow_real x y))"

definition sin_deg :: "real \<Rightarrow> real" where
  "sin_deg x = sin (x * pi / 180)"

definition cos_deg :: "real \<Rightarrow> real" where
  "cos_deg x = cos (x * pi / 180)"

text \<open>
  Modelled from the spec: the external raster-algebra evaluator (\<^verbatim>\<open>r.mapcalc\<close>), which
  is not under src/. It is an elementwise formula evaluator supporting \<^verbatim>\<open>+ - * / ^\<close>,
  \<^verbatim>\<open>sin\<close>, \<^verbatim>\<open>cos\<close>, \<^verbatim>\<open>exp\<close>, references to maps by name and scalar literals, with the
  no-data value propagated through every operation. Following the engine's conventions,
  a division by zero is NULL, the trigonometric functions take degrees, and a power is
  NULL where the real power function has no value.
\<close>

fun eval :: "mapset \<Rightarrow> expr \<Rightarrow> raster" where
  "eval ws (Lit x) c = Some x"
| "eval ws (Map n) c = (case ws n of None \<Rightarrow> None | Some r \<Rightarrow> r c)"
| "eval ws Blank c = None"
| "eval ws (Add a b) c = lift2 (+) (eval ws a c) (eval ws b c)"
| "eval ws (Sub a b) c = lift2 (-) (eval ws a c) (eval ws b c)"
| "eval ws (Mul a b) c = lift2 (*) (eval ws a c) (eval ws b c)"
| "eval ws (Div a b) c = div_cell (eval ws a c) (eval ws b c)"
| "eval ws (Pow a b) c = pow_cell (eval ws a c) (eval ws b c)"
| "eval ws (Sin a) c = map_option sin_deg (eval ws a c)"
| "eval ws (Cos a) c = map_option cos_deg (eval ws a c)"
| "eval ws (Exp a) c = map_option exp (eval ws a c)"

text \<open>
  An expression is accepted when it parses (no operand is missing) and every map it
  names exists.
\<close>

fun accepted :: "mapset \<Rightarrow> expr \<Rightarrow> bool" where
  "accepted ws (Lit x) = True"
| "accepted ws (Map n) = (ws n \<noteq> None)"
| "accepted ws Blank = False"
| "accepted ws (Add a b) = (accepted ws a \<and> accepted ws b)"
| "accepted ws (Sub a b) = (accepted ws a \<and> accepted ws b)"
| "accepted ws (Mul a b) = (accepted ws a \<and> accepted ws b)"
| "accepted ws (Div a b) = (accepted ws a \<and> accepted ws b)"
| "accepted ws (Pow a b) = (accepted ws a \<and> accepted ws b)"
| "accepted ws (Sin a) = accepted ws a"
| "accepted ws (Cos a) = accepted ws a"
| "accepted ws (Exp a) = accepted ws a"

subsection \<open>The modules the scripts run\<close>

text \<open>\<^verbatim>\<open>r.mapcalc expression="out = e" --overwrite\<close>\<close>

definition r_mapcalc :: "string \<Rightarrow> expr \<Rightarrow> unit cmd" where
  "r_mapcalc out e ws =
     (if accepted ws e then (Inr (), ws(out \<mapsto> eval ws e)) else (Inl CalledModuleError, ws))"

definition put :: "string option \<Rightarrow> raster \<Rightarrow> mapset \<Rightarrow> mapset" where
  "put out r ws = (case out of None \<Rightarrow> ws | Some n \<Rightarrow> ws(n \<mapsto> r))"

text \<open>\<^verbatim>\<open>r.slope.aspect elevation= [slope=] [aspect=] [dx=] [dy=] --overwrite\<close>\<close>

definition r_slope_aspect ::
  "engine \<Rightarrow> string \<Rightarrow> string option \<Rightarrow> string option \<Rightarrow> string option \<Rightarrow> string option \<Rightarrow> unit cmd" where
  "r_slope_aspect eng elevation slope aspect dx dy ws =
     (case ws elevation of
        None \<Rightarrow> (Inl CalledModuleError, ws)
      | Some z \<Rightarrow>
          (Inr (), put dy (dy_of eng z) (put dx (dx_of eng z)
                     (put aspect (aspect_of eng z) (put slope (slope_of eng z) ws)))))"

text \<open>\<^verbatim>\<open>r.grow.distance input= value= --overwrite\<close>\<close>

definition r_grow_distance :: "engine \<Rightarrow> string \<Rightarrow> string \<Rightarrow> unit cmd" where
  "r_grow_distance eng inp val ws =
     (case ws inp of
        None \<Rightarrow> (Inl CalledModuleError, ws)
      | Some r \<Rightarrow> (Inr (), ws(val \<mapsto> grow_distance eng r)))"

text \<open>\<^verbatim>\<open>r.watershed -a elevation= accumulation= --overwrite\<close>\<close>

definition r_watershed :: "engine \<Rightarrow> string \<Rightarrow> string \<Rightarrow> unit cmd" where
  "r_watershed eng elevation acc ws =
     (case ws elevation of
        None \<Rightarrow> (Inl CalledModuleError, ws)
      | Some z \<Rightarrow> (Inr (), ws(acc \<mapsto> accumulation_of eng z)))"

text \<open>\<^verbatim>\<open>r.colors map= rules=-\<close>: the colour table is not part of the cell values.\<close>

definition r_colors :: "string \<Rightarrow> unit cmd" where
  "r_colors m ws = (if ws m = None then (Inl CalledModuleError, ws) else (Inr (), ws))"

text \<open>\<^verbatim>\<open>g.remove -f type=raster name=...\<close>: every named map that exists is removed.\<close>

fun remove_all :: "string list \<Rightarrow> mapset \<Rightarrow> mapset" where
  "remove_all [] ws = ws"
| "remove_all (n # ns) ws = remove_all ns (ws(n := None))"

definition g_remove :: "engine \<Rightarrow> string list \<Rightarrow> unit cmd" where
  "g_remove eng names ws =
     (if remove_strict eng \<and> list_ex (\<lambda>n. ws n = None) names
      then (Inl CalledModuleError, remove_all names ws)
      else (Inr (), remove_all names ws))"

section \<open>The event-based erosivity factor\<close>

text \<open>
  \<^verbatim>\<open>event_based_r_factor(rain_intensity, rain_duration)\<close> of \<^verbatim>\<open>r.erosion.py\<close>. The two
  arguments are the texts substituted into the expressions, given here as the operands
  they parse to. The function returns the name of the map it wrote.
\<close>

definition event_based_r_factor :: "engine \<Rightarrow> expr \<Rightarrow> expr \<Rightarrow> string cmd" where
  "event_based_r_factor eng rain_intensity rain_duration =
     bind (seq
       [r_mapcalc ''rain_energy''
          (Mul (Lit 0.29) (Sub (Lit 1) (Mul (Lit 0.72) (Exp (Mul (Lit (- 0.05)) rain_intensity))))),
        r_mapcalc ''rain_volume''
          (Mul rain_intensity (Div rain_duration (Lit 60))),
        r_mapcalc ''erosivity''
          (Mul (Mul (Mul (Map ''rain_energy'') (Map ''rain_volume'')) rain_intensity) (Lit 1)),
        r_mapcalc ''r_factor''
          (Div (Map ''erosivity'') (Mul rain_duration (Lit 60))),
        r_mapcalc ''r_factor''
          (Div (Map ''erosivity'') (Div rain_duration (Lit 525600))),
        g_remove eng [''rain_energy'', ''rain_volume'', ''erosivity'']])
       (\<lambda>_. ret ''r_factor'')"

text \<open>
  \<^verbatim>\<open>event_based_r_factor(rain_intensity, rain_interval)\<close> of \<^verbatim>\<open>r.erosion.rfactor.py\<close>:
  the same steps without the division by the duration in seconds.
\<close>

definition rfactor_event_based_r_factor :: "engine \<Rightarrow> expr \<Rightarrow> expr \<Rightarrow> string cmd" where
  "rfactor_event_based_r_factor eng rain_intensity rain_interval =
     bind (seq
       [r_mapcalc ''rain_energy''
          (Mul (Lit 0.29) (Sub (Lit 1) (Mul (Lit 0.72) (Exp (Mul (Lit (- 0.05)) rain_intensity))))),
        r_mapcalc ''rain_volume''
          (Mul rain_intensity (Div rain_interval (Lit 60))),
        r_mapcalc ''erosivity''
          (Mul (Mul (Mul (Map ''rain_energy'') (Map ''rain_volume'')) rain_intensity) (Lit 1)),
        r_mapcalc ''r_factor''
          (Div (Map ''erosivity'') (Div rain_interval (Lit 525600))),
        g_remove eng [''rain_energy'', ''rain_volume'', ''erosivity'']])
       (\<lambda>_. ret ''r_factor'')"

section \<open>The two erosion models\<close>

text \<open>
  \<^verbatim>\<open>rusle\<close>: RUSLE3D, for detachment limited regimes. The cell resolution is the
  \<^verbatim>\<open>nsres\<close> entry of what \<^verbatim>\<open>g.region -g\<close> prints.
\<close>

definition rusle ::
  "engine \<Rightarrow> string \<Rightarrow> string \<Rightarrow> string \<Rightarrow> string \<Rightarrow> string \<Rightarrow> string \<Rightarrow> string \<Rightarrow> real \<Rightarrow> real
     \<Rightarrow> unit cmd" where
  "rusle eng elevation erosion flow_accumulation r_factor c_factor k_factor ls_factor m_coeff n_coeff =
     seq
       [r_slope_aspect eng elevation (Some ''slope'') None None None,
        r_grow_distance eng ''slope'' ''grow_slope'',
        r_mapcalc ''slope'' (Map ''grow_slope''),
        r_watershed eng elevation ''flowacc'',
        r_mapcalc flow_accumulation (Mul (Map ''flowacc'') (Lit (nsres eng))),
        r_mapcalc ls_factor
          (Mul (Mul (Add (Lit m_coeff) (Lit 1))
                    (Pow (Div (Map flow_accumulation) (Lit 22.1)) (Lit m_coeff)))
               (Pow (Div (Sin (Map ''slope'')) (Lit 5.14)) (Lit n_coeff))),
        r_mapcalc ''sedflow''
          (Mul (Mul (Mul (Map r_factor) (Map k_factor)) (Map ls_factor)) (Map c_factor)),
        r_mapcalc erosion (Div (Mul (Map ''sedflow'') (Lit 1000)) (Lit 10000)),
        r_colors erosion,
        g_remove eng [''slope'', ''grow_slope'', ''flowacc'', ''sedflow'']]"

text \<open>\<^verbatim>\<open>usped\<close>: USPED, for transport limited regimes.\<close>

definition usped ::
  "engine \<Rightarrow> string \<Rightarrow> string \<Rightarrow> string \<Rightarrow> string \<Rightarrow> string \<Rightarrow> string \<Rightarrow> string \<Rightarrow> real \<Rightarrow> real
     \<Rightarrow> unit cmd" where
  "usped eng elevation erosion flow_accumulation r_factor c_factor k_factor ls_factor m_coeff n_coeff =
     seq
       [r_slope_aspect eng elevation (Some ''slope'') (Some ''aspect'') None None,
        r_grow_distance eng ''slope'' ''grow_slope'',
        r_mapcalc ''slope'' (Map ''grow_slope''),
        r_grow_distance eng ''aspect'' ''grow_aspect'',
        r_mapcalc ''aspect'' (Map ''grow_aspect''),
        r_watershed eng elevation ''flowacc'',
        r_mapcalc flow_accumulation (Mul (Map ''flowacc'') (Lit (nsres eng))),
        r_mapcalc ls_factor
          (Mul (Pow (Map flow_accumulation) (Lit m_coeff))
               (Pow (Sin (Map ''slope'')) (Lit n_coeff))),
        r_mapcalc ''sedflow''
          (Mul (Mul (Mul (Map r_factor) (Map k_factor)) (Map c_factor)) (Map ls_factor)),
        r_mapcalc ''sediment_flux'' (Div (Mul (Map ''sedflow'') (Lit 1000)) (Lit 10000)),
        r_mapcalc ''qsx'' (Mul (Map ''sediment_flux'') (Cos (Map ''aspect''))),
        r_mapcalc ''qsy'' (Mul (Map ''sediment_flux'') (Sin (Map ''aspect''))),
        r_slope_aspect eng ''qsx'' None None (Some ''qsxdx'') None,
        r_slope_aspect eng ''qsy'' None None None (Some ''qsydy''),
        r_grow_distance eng ''qsxdx'' ''grow_qsxdx'',
        r_mapcalc ''qsxdx'' (Map ''grow_qsxdx''),
        r_grow_distance eng ''qsydy'' ''grow_qsydy'',
        r_mapcalc ''qsydy'' (Map ''grow_qsydy''),
        r_mapcalc erosion (Add (Map ''qsxdx'') (Map ''qsydy'')),
        r_colors erosion,
        g_remove eng
          [''slope'', ''aspect'', ''flowacc'', ''qsx'', ''qsy'', ''qsxdx'', ''qsydy'',
           ''grow_slope'', ''grow_aspect'', ''grow_qsxdx'', ''grow_qsydy'',
           ''sedflow'', ''sediment_flux'']]"

text \<open>
  \<^verbatim>\<open>cleanup\<close> of \<^verbatim>\<open>r.erosion.py\<close>: the removal is inside \<^verbatim>\<open>try\<close>, and
  \<^verbatim>\<open>except CalledModuleError: pass\<close> swallows its failure.
\<close>

definition cleanup :: "engine \<Rightarrow> unit cmd" where
  "cleanup eng ws =
     (case g_remove eng
             [''rain_volume'', ''rain_energy'', ''slope'', ''aspect'', ''flowacc'',
              ''qsx'', ''qsy'', ''qsxdx'', ''qsydy'', ''grow_slope'', ''grow_aspect'',
              ''grow_qsxdx'', ''grow_qsydy'', ''sedflow'', ''sediment_flux''] ws of
        (Inl CalledModuleError, ws') \<Rightarrow> (Inr (), ws')
      | (Inr u, ws') \<Rightarrow> (Inr u, ws'))"

section \<open>The script\<close>

text \<open>
  The options as the parser returns them. An option that was not given and has no
  \<^verbatim>\<open>answer\<close> is the empty text, which Python takes for false: it is \<open>None\<close> here.
  \<^verbatim>\<open>rain_intensity\<close> and \<^verbatim>\<open>rain_duration\<close> are of type integer; the parser admits
  \<^verbatim>\<open>rusle\<close> and \<^verbatim>\<open>usped\<close> for \<^verbatim>\<open>model\<close>.
\<close>

datatype model = Rusle | Usped

record options =
  opt_elevation :: string
  opt_model :: model
  opt_erosion :: string
  opt_flow_accumulation :: string
  opt_ls_factor :: string
  opt_rain_intensity :: "int option"
  opt_rain_duration :: "int option"
  opt_r_factor :: "string option"
  opt_k_factor :: "string option"
  opt_c_factor :: "string option"
  opt_r_factor_value :: real
  opt_k_factor_value :: real
  opt_c_factor_value :: real
  opt_m_coeff :: real
  opt_n_coeff :: real

text \<open>The \<^verbatim>\<open>answer\<close> lines of the option declarations, for a given elevation map.\<close>

definition answers :: "string \<Rightarrow> options" where
  "answers elev =
     \<lparr>opt_elevation = elev, opt_model = Rusle, opt_erosion = ''erosion'',
      opt_flow_accumulation = ''flow_accumulation'', opt_ls_factor = ''ls_factor'',
      opt_rain_intensity = None, opt_rain_duration = None,
      opt_r_factor = None, opt_k_factor = None, opt_c_factor = None,
      opt_r_factor_value = 310.0, opt_k_factor_value = 0.25, opt_c_factor_value = 0.1,
      opt_m_coeff = 1.5, opt_n_coeff = 1.2\<rparr>"

text \<open>The text of an integer option inside an expression.\<close>

definition option_text :: "int option \<Rightarrow> expr" where
  "option_text v = (case v of None \<Rightarrow> Blank | Some n \<Rightarrow> Lit (of_int n))"

text \<open>
  The first part of \<^verbatim>\<open>main\<close> (``check for alternative input parameters''): it
  settles the names of the R, C and K factor maps, in this order, writing a constant map
  where none was given.
\<close>

definition alternative_inputs :: "engine \<Rightarrow> options \<Rightarrow> (string \<times> string \<times> string) cmd" where
  "alternative_inputs eng opts =
     bind (if opt_rain_intensity opts = None
           then (case opt_r_factor opts of
                   None \<Rightarrow> bind (r_mapcalc ''r_factor'' (Lit (opt_r_factor_value opts)))
                                (\<lambda>_. ret ''r_factor'')
                 | Some g \<Rightarrow> ret g)
           else event_based_r_factor eng (option_text (opt_rain_intensity opts))
                  (option_text (opt_rain_duration opts)))
       (\<lambda>r_factor.
     bind (case opt_c_factor opts of
             None \<Rightarrow> bind (r_mapcalc ''c_factor'' (Lit (opt_c_factor_value opts)))
                          (\<lambda>_. ret ''c_factor'')
           | Some g \<Rightarrow> ret g)
       (\<lambda>c_factor.
     bind (case opt_k_factor opts of
             None \<Rightarrow> bind (r_mapcalc ''k_factor'' (Lit (opt_k_factor_value opts)))
                          (\<lambda>_. ret ''k_factor'')
           | Some g \<Rightarrow> ret g)
       (\<lambda>k_factor. ret (r_factor, c_factor, k_factor))))"

text \<open>
  How the process ends: \<^verbatim>\<open>sys.exit(0)\<close>, or an exception that nothing caught. \<^verbatim>\<open>main\<close>
  returns this, the mapset, and the functions registered with \<^verbatim>\<open>atexit\<close>, the last
  registered first. \<^verbatim>\<open>atexit.register(cleanup)\<close> is the statement before
  \<^verbatim>\<open>sys.exit(0)\<close>, after the model has run.
\<close>

datatype exit = SystemExit int | Uncaught exn

definition main :: "engine \<Rightarrow> options \<Rightarrow> mapset \<Rightarrow> exit \<times> mapset \<times> unit cmd list" where
  "main eng opts ws =
     (case bind (alternative_inputs eng opts)
             (\<lambda>(r_factor, c_factor, k_factor).
                bind (if opt_model opts = Rusle
                      then rusle eng (opt_elevation opts) (opt_erosion opts)
                             (opt_flow_accumulation opts) r_factor c_factor k_factor
                             (opt_ls_factor opts) (opt_m_coeff opts) (opt_n_coeff opts)
                      else ret ())
                  (\<lambda>_. if opt_model opts = Usped
                        then usped eng (opt_elevation opts) (opt_erosion opts)
                               (opt_flow_accumulation opts) r_factor c_factor k_factor
                               (opt_ls_factor opts) (opt_m_coeff opts) (opt_n_coeff opts)
                        else ret ())) ws of
        (Inl e, ws') \<Rightarrow> (Uncaught e, ws', [])
      | (Inr _, ws') \<Rightarrow> (SystemExit 0, ws', [cleanup eng]))"

text \<open>
  The interpreter runs the registered functions when the process ends; an exception
  raised by one of them is reported and the others still run.
\<close>

fun run_exitfuncs :: "unit cmd list \<Rightarrow> mapset \<Rightarrow> mapset" where
  "run_exitfuncs [] ws = ws"
| "run_exitfuncs (h # hs) ws = run_exitfuncs hs (snd (h ws))"

text \<open>
  One run of \<^verbatim>\<open>r.erosion.py\<close>: the way it ended, the mapset it left, and how many times
  \<^verbatim>\<open>cleanup\<close>, the only function ever registered, was called.
\<close>

record run =
  exit_status :: exit
  final_maps :: mapset
  cleanup_calls :: nat

definition run_script :: "engine \<Rightarrow> options \<Rightarrow> mapset \<Rightarrow> run" where
  "run_script eng opts ws =
     (case main eng opts ws of
        (st, ws', hs) \<Rightarrow>
          \<lparr>exit_status = st, final_maps = run_exitfuncs hs ws', cleanup_calls = length hs\<rparr>)"

section \<open>A small engine for the examples\<close>

text \<open>A raster with the same value in every cell.\<close>

definition level :: "real \<Rightarrow> raster" where
  "level v = (\<lambda>c. Some v)"

text \<open>
  Flat terrain on a region of resolution 1: slope, aspect and both partial derivatives
  are 0 in every cell, growing the border changes nothing, and every cell drains only
  itself.
\<close>

definition flat_engine :: engine where
  "flat_engine =
     \<lparr>slope_of = (\<lambda>z. level 0), aspect_of = (\<lambda>z. level 0),
      dx_of = (\<lambda>z. level 0), dy_of = (\<lambda>z. level 0),
      grow_distance = (\<lambda>r. r), accumulation_of = (\<lambda>z. level 1),
      nsres = 1, remove_strict = False\<rparr>"

text \<open>A mapset with an elevation map and the three factor maps, at the default constants.\<close>

definition example_elevation :: raster where
  "example_elevation = level 100"

definition example_maps :: mapset where
  "example_maps =
     [''elevation'' \<mapsto> example_elevation, ''r_factor'' \<mapsto> level 310,
      ''k_factor'' \<mapsto> level 0.25, ''c_factor'' \<mapsto> level 0.1]"

text \<open>A mapset with nothing but the elevation map.\<close>

definition bare_maps :: mapset where
  "bare_maps = [''elevation'' \<mapsto> example_elevation]"


definition intensity_only :: options where
  "intensity_only = (answers ''elevation'')\<lparr>opt_rain_intensity := Some 50\<rparr>"

section \<open>Running the steps\<close>

lemma r_mapcalc_ok:
  "accepted ws e \<Longrightarrow> (\<And>c. eval ws e c = r c) \<Longrightarrow> r_mapcalc out e ws = (Inr (), ws(out \<mapsto> r))"
  by (simp add: r_mapcalc_def fun_eq_iff)

lemma g_remove_present:
  "\<not> list_ex (\<lambda>n. ws n = None) names \<Longrightarrow> g_remove eng names ws = (Inr (), remove_all names ws)"
  by (simp add: g_remove_def)

lemma event_steps:
  fixes i d :: real and ws :: mapset and eng :: engine
  defines "en \<equiv> 0.29 * (1 - 0.72 * exp (- 0.05 * i))"
  defines "vol \<equiv> i * (d / 60)"
  defines "rf \<equiv> (\<lambda>c::cell. if d = 0 then None else Some (en * vol * i / (d / 525600)))"
  defines "fin \<equiv> (ws(''r_factor'' \<mapsto> rf))
                    (''rain_energy'' := None, ''rain_volume'' := None, ''erosivity'' := None)"
  shows "event_based_r_factor eng (Lit i) (Lit d) ws = (Inr ''r_factor'', fin)"
    and "rfactor_event_based_r_factor eng (Lit i) (Lit d) ws = (Inr ''r_factor'', fin)"
proof -
  let ?w1 = "ws(''rain_energy'' \<mapsto> (\<lambda>c. Some en))"
  let ?w2 = "?w1(''rain_volume'' \<mapsto> (\<lambda>c. Some vol))"
  let ?w3 = "?w2(''erosivity'' \<mapsto> (\<lambda>c. Some (en * vol * i)))"
  let ?w4 = "?w3(''r_factor'' \<mapsto> (\<lambda>c. if d = 0 then None else Some (en * vol * i / (d * 60))))"
  let ?w5 = "?w3(''r_factor'' \<mapsto> rf)"
  let ?tmp = "[''rain_energy'', ''rain_volume'', ''erosivity'']"
  have s1: "r_mapcalc ''rain_energy''
          (Mul (Lit 0.29) (Sub (Lit 1) (Mul (Lit 0.72) (Exp (Mul (Lit (- 0.05)) (Lit i)))))) ws = (Inr (), ?w1)"
    by (rule r_mapcalc_ok) (simp_all add: lift2_def en_def)
  have s2: "r_mapcalc ''rain_volume'' (Mul (Lit i) (Div (Lit d) (Lit 60))) ?w1 = (Inr (), ?w2)"
    by (rule r_mapcalc_ok) (simp_all add: lift2_def div_cell_def vol_def)
  have s3: "r_mapcalc ''erosivity''
          (Mul (Mul (Mul (Map ''rain_energy'') (Map ''rain_volume'')) (Lit i)) (Lit 1)) ?w2 = (Inr (), ?w3)"
    by (rule r_mapcalc_ok) (simp_all add: lift2_def)
  have s4: "r_mapcalc ''r_factor'' (Div (Map ''erosivity'') (Mul (Lit d) (Lit 60))) ?w3 = (Inr (), ?w4)"
    by (rule r_mapcalc_ok) (simp_all add: lift2_def div_cell_def)
  have s5: "r_mapcalc ''r_factor'' (Div (Map ''erosivity'') (Div (Lit d) (Lit 525600))) ?w4 = (Inr (), ?w5)"
    using r_mapcalc_ok [of ?w4 "Div (Map ''erosivity'') (Div (Lit d) (Lit 525600))" rf "''r_factor''"]
    by (simp add: lift2_def div_cell_def rf_def)
  have s5': "r_mapcalc ''r_factor'' (Div (Map ''erosivity'') (Div (Lit d) (Lit 525600))) ?w3 = (Inr (), ?w5)"
    by (rule r_mapcalc_ok) (simp_all add: lift2_def div_cell_def rf_def)
  have rm: "remove_all ?tmp ?w5 = fin"
    by (rule ext) (simp add: fin_def)
  have "g_remove eng ?tmp ?w5 = (Inr (), remove_all ?tmp ?w5)"
    by (rule g_remove_present) simp
  then have s6: "g_remove eng ?tmp ?w5 = (Inr (), fin)"
    by (simp only: rm)
  show "event_based_r_factor eng (Lit i) (Lit d) ws = (Inr ''r_factor'', fin)"
    unfolding event_based_r_factor_def bind_def
    by (simp only: seq.simps s1 s2 s3 s4 s5 s6 prod.case sum.case ret_def)
  show "rfactor_event_based_r_factor eng (Lit i) (Lit d) ws = (Inr ''r_factor'', fin)"
    unfolding rfactor_event_based_r_factor_def bind_def
    by (simp only: seq.simps s1 s2 s3 s5' s6 prod.case sum.case ret_def)
qed

lemma event_returns:
  fixes i d :: real and ws :: mapset and eng :: engine
  assumes "d \<noteq> 0"
  defines "v \<equiv> 0.29 * (1 - 0.72 * exp (- 0.05 * i)) * (i * (d / 60)) * i / (d / 525600)"
  defines "fin \<equiv> (ws(''r_factor'' \<mapsto> (\<lambda>c. Some v)))
                    (''rain_energy'' := None, ''rain_volume'' := None, ''erosivity'' := None)"
  shows "event_based_r_factor eng (Lit i) (Lit d) ws = (Inr ''r_factor'', fin)"
    and "rfactor_event_based_r_factor eng (Lit i) (Lit d) ws = (Inr ''r_factor'', fin)"
  using assms(1) by (simp_all only: event_steps v_def fin_def if_False)


lemma r_grow_distance_ok:
  "ws inp = Some r \<Longrightarrow> r_grow_distance eng inp val ws = (Inr (), ws(val \<mapsto> grow_distance eng r))"
  by (simp add: r_grow_distance_def)

lemma r_watershed_ok:
  "ws elevation = Some z \<Longrightarrow> r_watershed eng elevation acc ws = (Inr (), ws(acc \<mapsto> accumulation_of eng z))"
  by (simp add: r_watershed_def)

lemma r_colors_ok: "ws m \<noteq> None \<Longrightarrow> r_colors m ws = (Inr (), ws)"
  by (simp add: r_colors_def)

lemma present_upd: "ws n \<noteq> None \<Longrightarrow> (ws(k \<mapsto> v)) n \<noteq> None"
  by simp

lemma present_upd_same: "(ws(n \<mapsto> v)) n \<noteq> None"
  by simp

lemma g_remove_all_present:
  "list_all (\<lambda>n. ws n \<noteq> None) names \<Longrightarrow> g_remove eng names ws = (Inr (), remove_all names ws)"
  by (simp add: g_remove_def list_all_iff list_ex_iff)

lemma notin_Cons_neq: "(x \<notin> set (y # ys)) = (x \<noteq> y \<and> y \<noteq> x \<and> x \<notin> set ys)"
  by auto

lemma notin_Nil: "(x \<notin> set []) = True"
  by simp

lemma lookup_upd_same: "(ws(n \<mapsto> v)) n = Some v"
  by simp

lemma lookup_upd_other: "k \<noteq> n \<Longrightarrow> ws n = r \<Longrightarrow> (ws(k \<mapsto> v)) n = r"
  by simp

lemma lookup_remove_all: "n \<notin> set ns \<Longrightarrow> ws n = r \<Longrightarrow> remove_all ns ws n = r"
  by (induction ns arbitrary: ws) auto

lemma disjoint_Cons1: "(set (x # xs) \<inter> set ys = {}) = (x \<notin> set ys \<and> set xs \<inter> set ys = {})"
  by auto

lemma disjoint_Nil1: "(set [] \<inter> set ys = {}) = True"
  by simp

lemmas names_unfold = disjoint_Cons1 disjoint_Nil1 distinct.simps notin_Cons_neq notin_Nil

text \<open>The mapset after \<^verbatim>\<open>rusle\<close>, when no name given by the user is a scratch name.\<close>

lemma rusle_steps:
  fixes eng :: engine and ws :: mapset and m n :: real and z R K C :: raster
  assumes elev: "ws elevation = Some z"
    and R: "ws r_factor = Some R" and K: "ws k_factor = Some K" and C: "ws c_factor = Some C"
    and outs: "distinct [erosion, flow_accumulation, ls_factor]"
    and ins: "set [r_factor, k_factor, c_factor] \<inter> set [flow_accumulation, ls_factor] = {}"
    and scr: "set [elevation, r_factor, k_factor, c_factor, erosion, flow_accumulation, ls_factor]
                \<inter> set [''slope'', ''grow_slope'', ''flowacc'', ''sedflow''] = {}"
  defines "SL \<equiv> grow_distance eng (slope_of eng z)"
  defines "FA \<equiv> (\<lambda>c. lift2 (*) (accumulation_of eng z c) (Some (nsres eng)))"
  defines "LS \<equiv> (\<lambda>c. lift2 (*)
                    (lift2 (*) (Some (m + 1)) (pow_cell (div_cell (FA c) (Some 22.1)) (Some m)))
                    (pow_cell (div_cell (map_option sin_deg (SL c)) (Some 5.14)) (Some n)))"
  defines "SED \<equiv> (\<lambda>c. lift2 (*) (lift2 (*) (lift2 (*) (R c) (K c)) (LS c)) (C c))"
  defines "ERO \<equiv> (\<lambda>c. div_cell (lift2 (*) (SED c) (Some 1000)) (Some 10000))"
  shows "\<exists>ws'. rusle eng elevation erosion flow_accumulation r_factor c_factor k_factor ls_factor m n ws
                 = (Inr (), ws')
           \<and> ws' flow_accumulation = Some FA \<and> ws' ls_factor = Some LS \<and> ws' erosion = Some ERO"
proof -
  note ne = outs [unfolded names_unfold] ins [unfolded names_unfold] scr [unfolded names_unfold]
  let ?w1 = "ws(''slope'' \<mapsto> slope_of eng z)"
  let ?w2 = "?w1(''grow_slope'' \<mapsto> SL)"
  let ?w3 = "?w2(''slope'' \<mapsto> SL)"
  let ?w4 = "?w3(''flowacc'' \<mapsto> accumulation_of eng z)"
  let ?w5 = "?w4(flow_accumulation \<mapsto> FA)"
  let ?w6 = "?w5(ls_factor \<mapsto> LS)"
  let ?w7 = "?w6(''sedflow'' \<mapsto> SED)"
  let ?w8 = "?w7(erosion \<mapsto> ERO)"
  let ?tmp = "[''slope'', ''grow_slope'', ''flowacc'', ''sedflow'']"
  have s1: "r_slope_aspect eng elevation (Some ''slope'') None None None ws = (Inr (), ?w1)"
    using elev(1) by (simp add: r_slope_aspect_def put_def)
  have s2: "r_grow_distance eng ''slope'' ''grow_slope'' ?w1 = (Inr (), ?w2)"
    unfolding SL_def by (rule r_grow_distance_ok) simp
  have s3: "r_mapcalc ''slope'' (Map ''grow_slope'') ?w2 = (Inr (), ?w3)"
    by (rule r_mapcalc_ok) simp_all
  have "?w3 elevation = Some z"
    using elev by (simp add: ne)
  then have s4: "r_watershed eng elevation ''flowacc'' ?w3 = (Inr (), ?w4)"
    by (rule r_watershed_ok)
  have s5: "r_mapcalc flow_accumulation (Mul (Map ''flowacc'') (Lit (nsres eng))) ?w4 = (Inr (), ?w5)"
    by (rule r_mapcalc_ok) (simp_all add: FA_def)
  have w5: "?w5 flow_accumulation = Some FA" "?w5 ''slope'' = Some SL"
    by (simp_all add: ne)
  have s6: "r_mapcalc ls_factor
          (Mul (Mul (Add (Lit m) (Lit 1))
                    (Pow (Div (Map flow_accumulation) (Lit 22.1)) (Lit m)))
               (Pow (Div (Sin (Map ''slope'')) (Lit 5.14)) (Lit n))) ?w5 = (Inr (), ?w6)"
    by (rule r_mapcalc_ok) (simp_all only: accepted.simps eval.simps w5 option.case LS_def lift2_def,
        simp_all)
  have w6: "?w6 r_factor = Some R" "?w6 k_factor = Some K" "?w6 c_factor = Some C"
      "?w6 ls_factor = Some LS"
    using R K C by (simp_all add: ne)
  have s7: "r_mapcalc ''sedflow''
          (Mul (Mul (Mul (Map r_factor) (Map k_factor)) (Map ls_factor)) (Map c_factor)) ?w6 = (Inr (), ?w7)"
    by (rule r_mapcalc_ok) (simp_all only: accepted.simps eval.simps w6 option.case SED_def, simp_all)
  have s8: "r_mapcalc erosion (Div (Mul (Map ''sedflow'') (Lit 1000)) (Lit 10000)) ?w7 = (Inr (), ?w8)"
    by (rule r_mapcalc_ok) (simp_all add: ERO_def)
  have s9: "r_colors erosion ?w8 = (Inr (), ?w8)"
    by (rule r_colors_ok) (rule present_upd_same)
  have s10: "g_remove eng ?tmp ?w8 = (Inr (), remove_all ?tmp ?w8)"
    by (rule g_remove_all_present)
      (simp only: list.pred_inject, intro conjI TrueI; (rule present_upd_same | rule present_upd)+)
  have run: "rusle eng elevation erosion flow_accumulation r_factor c_factor k_factor ls_factor m n ws
      = (Inr (), remove_all ?tmp ?w8)"
    unfolding rusle_def
    by (simp only: seq.simps s1 s2 s3 s4 s5 s6 s7 s8 s9 s10 prod.case sum.case)
  have "remove_all ?tmp ?w8 flow_accumulation = Some FA"
    "remove_all ?tmp ?w8 ls_factor = Some LS" "remove_all ?tmp ?w8 erosion = Some ERO"
    by (rule lookup_remove_all, simp add: ne,
        (rule lookup_upd_same | (rule lookup_upd_other, simp add: ne))+)+
  with run show ?thesis by blast
qed

text \<open>The same for \<^verbatim>\<open>usped\<close>.\<close>

lemma usped_steps:
  fixes eng :: engine and ws :: mapset and m n :: real and z R K C :: raster
  assumes elev: "ws elevation = Some z"
    and R: "ws r_factor = Some R" and K: "ws k_factor = Some K" and C: "ws c_factor = Some C"
    and outs: "distinct [erosion, flow_accumulation, ls_factor]"
    and ins: "set [r_factor, k_factor, c_factor] \<inter> set [flow_accumulation, ls_factor] = {}"
    and scr: "set [elevation, r_factor, k_factor, c_factor, erosion, flow_accumulation, ls_factor]
                \<inter> set [''slope'', ''aspect'', ''flowacc'', ''qsx'', ''qsy'', ''qsxdx'', ''qsydy'',
                       ''grow_slope'', ''grow_aspect'', ''grow_qsxdx'', ''grow_qsydy'',
                       ''sedflow'', ''sediment_flux''] = {}"
  defines "SL \<equiv> grow_distance eng (slope_of eng z)"
  defines "AS \<equiv> grow_distance eng (aspect_of eng z)"
  defines "FA \<equiv> (\<lambda>c. lift2 (*) (accumulation_of eng z c) (Some (nsres eng)))"
  defines "LS \<equiv> (\<lambda>c. lift2 (*) (pow_cell (FA c) (Some m))
                              (pow_cell (map_option sin_deg (SL c)) (Some n)))"
  defines "SED \<equiv> (\<lambda>c. lift2 (*) (lift2 (*) (lift2 (*) (R c) (K c)) (C c)) (LS c))"
  defines "FLUX \<equiv> (\<lambda>c. div_cell (lift2 (*) (SED c) (Some 1000)) (Some 10000))"
  defines "QSX \<equiv> (\<lambda>c. lift2 (*) (FLUX c) (map_option cos_deg (AS c)))"
  defines "QSY \<equiv> (\<lambda>c. lift2 (*) (FLUX c) (map_option sin_deg (AS c)))"
  defines "QSXDX \<equiv> grow_distance eng (dx_of eng QSX)"
  defines "QSYDY \<equiv> grow_distance eng (dy_of eng QSY)"
  defines "ERO \<equiv> (\<lambda>c. lift2 (+) (QSXDX c) (QSYDY c))"
  shows "\<exists>ws'. usped eng elevation erosion flow_accumulation r_factor c_factor k_factor ls_factor m n ws
                 = (Inr (), ws')
           \<and> ws' flow_accumulation = Some FA \<and> ws' ls_factor = Some LS \<and> ws' erosion = Some ERO"
proof -
  note ne = outs [unfolded names_unfold] ins [unfolded names_unfold] scr [unfolded names_unfold]
  let ?w1 = "ws(''slope'' \<mapsto> slope_of eng z, ''aspect'' \<mapsto> aspect_of eng z)"
  let ?w2 = "?w1(''grow_slope'' \<mapsto> SL)"
  let ?w3 = "?w2(''slope'' \<mapsto> SL)"
  let ?w4 = "?w3(''grow_aspect'' \<mapsto> AS)"
  let ?w5 = "?w4(''aspect'' \<mapsto> AS)"
  let ?w6 = "?w5(''flowacc'' \<mapsto> accumulation_of eng z)"
  let ?w7 = "?w6(flow_accumulation \<mapsto> FA)"
  let ?w8 = "?w7(ls_factor \<mapsto> LS)"
  let ?w9 = "?w8(''sedflow'' \<mapsto> SED)"
  let ?w10 = "?w9(''sediment_flux'' \<mapsto> FLUX)"
  let ?w11 = "?w10(''qsx'' \<mapsto> QSX)"
  let ?w12 = "?w11(''qsy'' \<mapsto> QSY)"
  let ?w13 = "?w12(''qsxdx'' \<mapsto> dx_of eng QSX)"
  let ?w14 = "?w13(''qsydy'' \<mapsto> dy_of eng QSY)"
  let ?w15 = "?w14(''grow_qsxdx'' \<mapsto> QSXDX)"
  let ?w16 = "?w15(''qsxdx'' \<mapsto> QSXDX)"
  let ?w17 = "?w16(''grow_qsydy'' \<mapsto> QSYDY)"
  let ?w18 = "?w17(''qsydy'' \<mapsto> QSYDY)"
  let ?w19 = "?w18(erosion \<mapsto> ERO)"
  let ?tmp = "[''slope'', ''aspect'', ''flowacc'', ''qsx'', ''qsy'', ''qsxdx'', ''qsydy'',
           ''grow_slope'', ''grow_aspect'', ''grow_qsxdx'', ''grow_qsydy'',
           ''sedflow'', ''sediment_flux'']"
  have s1: "r_slope_aspect eng elevation (Some ''slope'') (Some ''aspect'') None None ws = (Inr (), ?w1)"
    using elev(1) by (simp add: r_slope_aspect_def put_def)
  have s2: "r_grow_distance eng ''slope'' ''grow_slope'' ?w1 = (Inr (), ?w2)"
    unfolding SL_def by (rule r_grow_distance_ok) simp
  have s3: "r_mapcalc ''slope'' (Map ''grow_slope'') ?w2 = (Inr (), ?w3)"
    by (rule r_mapcalc_ok) simp_all
  have s4: "r_grow_distance eng ''aspect'' ''grow_aspect'' ?w3 = (Inr (), ?w4)"
    unfolding AS_def by (rule r_grow_distance_ok) simp
  have s5: "r_mapcalc ''aspect'' (Map ''grow_aspect'') ?w4 = (Inr (), ?w5)"
    by (rule r_mapcalc_ok) simp_all
  have "?w5 elevation = Some z"
    using elev(1) by (simp add: ne)
  then have s6: "r_watershed eng elevation ''flowacc'' ?w5 = (Inr (), ?w6)"
    by (rule r_watershed_ok)
  have s7: "r_mapcalc flow_accumulation (Mul (Map ''flowacc'') (Lit (nsres eng))) ?w6 = (Inr (), ?w7)"
    by (rule r_mapcalc_ok) (simp_all add: FA_def)
  have w7: "?w7 flow_accumulation = Some FA" "?w7 ''slope'' = Some SL"
    by (simp_all add: ne)
  have s8: "r_mapcalc ls_factor
          (Mul (Pow (Map flow_accumulation) (Lit m)) (Pow (Sin (Map ''slope'')) (Lit n))) ?w7
        = (Inr (), ?w8)"
    by (rule r_mapcalc_ok; simp only: accepted.simps eval.simps w7 option.case LS_def; simp)
  have w8: "?w8 r_factor = Some R" "?w8 k_factor = Some K" "?w8 c_factor = Some C"
      "?w8 ls_factor = Some LS"
    using R K C by (simp_all add: ne)
  have s9: "r_mapcalc ''sedflow''
          (Mul (Mul (Mul (Map r_factor) (Map k_factor)) (Map c_factor)) (Map ls_factor)) ?w8
        = (Inr (), ?w9)"
    by (rule r_mapcalc_ok; simp only: accepted.simps eval.simps w8 option.case SED_def; simp)
  have s10: "r_mapcalc ''sediment_flux'' (Div (Mul (Map ''sedflow'') (Lit 1000)) (Lit 10000)) ?w9
        = (Inr (), ?w10)"
    by (rule r_mapcalc_ok) (simp_all add: FLUX_def)
  have w10: "?w10 ''sediment_flux'' = Some FLUX" "?w10 ''aspect'' = Some AS"
    by (simp_all add: ne)
  have s11: "r_mapcalc ''qsx'' (Mul (Map ''sediment_flux'') (Cos (Map ''aspect''))) ?w10 = (Inr (), ?w11)"
    by (rule r_mapcalc_ok; simp only: accepted.simps eval.simps w10 option.case QSX_def; simp)
  have w11: "?w11 ''sediment_flux'' = Some FLUX" "?w11 ''aspect'' = Some AS"
    by (simp_all add: ne)
  have s12: "r_mapcalc ''qsy'' (Mul (Map ''sediment_flux'') (Sin (Map ''aspect''))) ?w11 = (Inr (), ?w12)"
    by (rule r_mapcalc_ok; simp only: accepted.simps eval.simps w11 option.case QSY_def; simp)
  have s13: "r_slope_aspect eng ''qsx'' None None (Some ''qsxdx'') None ?w12 = (Inr (), ?w13)"
    by (simp add: r_slope_aspect_def put_def)
  have s14: "r_slope_aspect eng ''qsy'' None None None (Some ''qsydy'') ?w13 = (Inr (), ?w14)"
    by (simp add: r_slope_aspect_def put_def)
  have s15: "r_grow_distance eng ''qsxdx'' ''grow_qsxdx'' ?w14 = (Inr (), ?w15)"
    unfolding QSXDX_def by (rule r_grow_distance_ok) simp
  have s16: "r_mapcalc ''qsxdx'' (Map ''grow_qsxdx'') ?w15 = (Inr (), ?w16)"
    by (rule r_mapcalc_ok) simp_all
  have s17: "r_grow_distance eng ''qsydy'' ''grow_qsydy'' ?w16 = (Inr (), ?w17)"
    unfolding QSYDY_def by (rule r_grow_distance_ok) simp
  have s18: "r_mapcalc ''qsydy'' (Map ''grow_qsydy'') ?w17 = (Inr (), ?w18)"
    by (rule r_mapcalc_ok) simp_all
  have s19: "r_mapcalc erosion (Add (Map ''qsxdx'') (Map ''qsydy'')) ?w18 = (Inr (), ?w19)"
    by (rule r_mapcalc_ok) (simp_all add: ERO_def)
  have s20: "r_colors erosion ?w19 = (Inr (), ?w19)"
    by (rule r_colors_ok) (rule present_upd_same)
  have s21: "g_remove eng ?tmp ?w19 = (Inr (), remove_all ?tmp ?w19)"
    by (rule g_remove_all_present)
      (simp only: list.pred_inject, intro conjI TrueI; (rule present_upd_same | rule present_upd)+)
  have run: "usped eng elevation erosion flow_accumulation r_factor c_factor k_factor ls_factor m n ws
      = (Inr (), remove_all ?tmp ?w19)"
    unfolding usped_def
    by (simp only: seq.simps s1 s2 s3 s4 s5 s6 s7 s8 s9 s10 s11 s12 s13 s14 s15 s16 s17 s18 s19
        s20 s21 prod.case sum.case)
  have "remove_all ?tmp ?w19 flow_accumulation = Some FA"
    "remove_all ?tmp ?w19 ls_factor = Some LS" "remove_all ?tmp ?w19 erosion = Some ERO"
    by (rule lookup_remove_all, simp add: ne,
        (rule lookup_upd_same | (rule lookup_upd_other, simp add: ne))+)+
  with run show ?thesis by blast
qed

lemma lift2_times_const: "lift2 (*) x (Some r) = map_option (\<lambda>a. a * r) x"
  by (cases x) (simp_all add: lift2_def)


lemma example_maps_lookup:
  "example_maps ''elevation'' = Some example_elevation"
  "example_maps ''r_factor'' = Some (level 310)"
  "example_maps ''k_factor'' = Some (level 0.25)"
  "example_maps ''c_factor'' = Some (level 0.1)"
  by (simp_all add: example_maps_def)

lemma example_names:
  "distinct [''erosion'', ''flow_accumulation'', ''ls_factor'']"
  "set [''r_factor'', ''k_factor'', ''c_factor''] \<inter> set [''flow_accumulation'', ''ls_factor''] = {}"
  by simp_all

lemma example_names_rusle:
  "set [''elevation'', ''r_factor'', ''k_factor'', ''c_factor'', ''erosion'', ''flow_accumulation'',
        ''ls_factor'']
     \<inter> set [''slope'', ''grow_slope'', ''flowacc'', ''sedflow''] = {}"
  by (simp add: names_unfold)

lemma example_names_usped:
  "set [''elevation'', ''r_factor'', ''k_factor'', ''c_factor'', ''erosion'', ''flow_accumulation'',
        ''ls_factor'']
     \<inter> set [''slope'', ''aspect'', ''flowacc'', ''qsx'', ''qsy'', ''qsxdx'', ''qsydy'',
            ''grow_slope'', ''grow_aspect'', ''grow_qsxdx'', ''grow_qsydy'',
            ''sedflow'', ''sediment_flux''] = {}"
  by (simp add: names_unfold)

lemma pow_real_zero: "0 \<le> n \<Longrightarrow> pow_real 0 n = Some (if n = 0 then 1 else 0)"
  by (simp add: pow_real_def)

lemma pow_real_pos: "0 < x \<Longrightarrow> pow_real x y = Some (x powr y)"
  by (simp add: pow_real_def)

lemma flat_engine_simps:
  "slope_of flat_engine z = level 0" "grow_distance flat_engine r = r"
  "accumulation_of flat_engine z = level 1" "nsres flat_engine = 1"
  by (simp_all add: flat_engine_def)









lemma answers_simps:
  "opt_elevation (answers e) = e" "opt_model (answers e) = Rusle"
  "opt_erosion (answers e) = ''erosion''" "opt_flow_accumulation (answers e) = ''flow_accumulation''"
  "opt_ls_factor (answers e) = ''ls_factor''"
  "opt_rain_intensity (answers e) = None" "opt_rain_duration (answers e) = None"
  "opt_r_factor (answers e) = None" "opt_k_factor (answers e) = None" "opt_c_factor (answers e) = None"
  "opt_r_factor_value (answers e) = 310" "opt_k_factor_value (answers e) = 0.25"
  "opt_c_factor_value (answers e) = 0.1" "opt_m_coeff (answers e) = 1.5" "opt_n_coeff (answers e) = 1.2"
  by (simp_all add: answers_def)




text \<open>A run with a rain intensity and no duration.\<close>

lemma event_without_duration:
  "event_based_r_factor eng (Lit i) Blank ws
     = (Inl CalledModuleError, ws(''rain_energy'' \<mapsto> level (0.29 * (1 - 0.72 * exp (- 0.05 * i)))))"
proof -
  let ?w1 = "ws(''rain_energy'' \<mapsto> level (0.29 * (1 - 0.72 * exp (- 0.05 * i))))"
  have s1: "r_mapcalc ''rain_energy''
          (Mul (Lit 0.29) (Sub (Lit 1) (Mul (Lit 0.72) (Exp (Mul (Lit (- 0.05)) (Lit i)))))) ws = (Inr (), ?w1)"
    by (rule r_mapcalc_ok) (simp_all add: lift2_def level_def)
  have s2: "r_mapcalc ''rain_volume'' (Mul (Lit i) (Div Blank (Lit 60))) ?w1 = (Inl CalledModuleError, ?w1)"
    by (simp add: r_mapcalc_def)
  show ?thesis
    unfolding event_based_r_factor_def bind_def
    by (simp only: seq.simps s1 s2 prod.case sum.case)
qed

lemma intensity_only_inputs:
  "alternative_inputs flat_engine intensity_only bare_maps
     = (Inl CalledModuleError,
        bare_maps(''rain_energy'' \<mapsto> level (0.29 * (1 - 0.72 * exp (- 0.05 * 50)))))"
  using event_without_duration [of flat_engine 50 bare_maps]
  by (simp add: alternative_inputs_def bind_def intensity_only_def answers_simps option_text_def)

lemma main_intensity_only:
  "main flat_engine intensity_only bare_maps
     = (Uncaught CalledModuleError,
        bare_maps(''rain_energy'' \<mapsto> level (0.29 * (1 - 0.72 * exp (- 0.05 * 50)))), [])"
  by (simp add: main_def bind_def intensity_only_inputs)

text \<open>
  What does hold of \<^verbatim>\<open>cleanup\<close>: it never raises, whatever \<^verbatim>\<open>g.remove\<close> does on a
  missing map; it leaves \<^verbatim>\<open>erosivity\<close>, which is not in its list, where it is; a run
  that ends with \<^verbatim>\<open>sys.exit(0)\<close> calls it once, and a run that ends with an exception
  does not call it.
\<close>

lemma swallow_fst:
  "fst (case x of (Inl CalledModuleError, ws') \<Rightarrow> (Inr (), ws') | (Inr u, ws') \<Rightarrow> (Inr u, ws')) = Inr ()"
  by (cases x) (auto split: sum.splits exn.splits)

lemma swallow_snd:
  "snd (case x of (Inl CalledModuleError, ws') \<Rightarrow> (Inr (), ws') | (Inr u, ws') \<Rightarrow> (Inr u, ws')) = snd x"
  by (cases x) (auto split: sum.splits exn.splits)

lemma g_remove_snd: "snd (g_remove eng ns ws) = remove_all ns ws"
  by (simp add: g_remove_def)

lemma cleanup_never_raises: "fst (cleanup eng ws) = Inr ()"
  unfolding cleanup_def by (rule swallow_fst)

lemma cleanup_keeps_erosivity: "snd (cleanup eng ws) ''erosivity'' = ws ''erosivity''"
  unfolding cleanup_def swallow_snd g_remove_snd
  by (rule lookup_remove_all) simp_all

lemma cleanup_once_on_success:
  "exit_status (run_script eng opts ws) = SystemExit 0 \<Longrightarrow> cleanup_calls (run_script eng opts ws) = 1"
  by (auto simp add: run_script_def main_def split: prod.splits sum.splits)

lemma cleanup_skipped_on_failure:
  "exit_status (run_script eng opts ws) = Uncaught e \<Longrightarrow> cleanup_calls (run_script eng opts ws) = 0"
  by (auto simp add: run_script_def main_def split: prod.splits sum.splits)

section \<open>Properties of the event-based erosivity factor\<close>

text \<open>
  C1. For every positive rain intensity \<open>i\<close> and positive rain duration \<open>d\<close>,
  \<open>event_based_r_factor\<close> returns the map \<^verbatim>\<open>r_factor\<close>, and its value in every cell is
  the composition of the four formulas:
  \<open>(0.29 * (1 - 0.72 * exp (-0.05 * i))) * (i * (d / 60)) * i / (d / 525600)\<close>.
  The function is a function of its arguments and the mapset, so the same inputs give
  the same result. The intermediate assignment of \<^verbatim>\<open>r_factor\<close> to
  \<open>erosivity / (d * 60)\<close> is overwritten: the outcome, mapset included, is that of the
  function of \<^verbatim>\<open>r.erosion.rfactor.py\<close>, which has no such step.
\<close>

theorem event_based_r_factor_closed_form:
  assumes "0 < i" and "0 < d"
  shows "\<exists>ws'. event_based_r_factor eng (Lit i) (Lit d) ws = (Inr ''r_factor'', ws')
     \<and> ws' ''r_factor'' =
         Some (\<lambda>c. Some ((0.29 * (1 - 0.72 * exp (- 0.05 * i))) * (i * (d / 60)) * i / (d / 525600)))
     \<and> rfactor_event_based_r_factor eng (Lit i) (Lit d) ws = (Inr ''r_factor'', ws')"
proof -
  from assms have "d \<noteq> 0" by simp
  from event_returns [OF this, of eng i ws] show ?thesis by simp
qed

theorem event_based_r_factor_closed_form_witness:
  "(0::real) < 50 \<and> (0::real) < 5 \<and>
   (\<exists>ws'. event_based_r_factor flat_engine (Lit 50) (Lit 5) Map.empty = (Inr ''r_factor'', ws')
     \<and> ws' ''r_factor'' =
         Some (\<lambda>c. Some ((0.29 * (1 - 0.72 * exp (- 0.05 * 50))) * (50 * (5 / 60)) * 50 / (5 / 525600)))
     \<and> rfactor_event_based_r_factor flat_engine (Lit 50) (Lit 5) Map.empty = (Inr ''r_factor'', ws'))"
proof -
  have h: "(0::real) < 50" "(0::real) < 5" by simp_all
  from event_based_r_factor_closed_form [OF h, of flat_engine Map.empty] h show ?thesis
    by blast
qed



section \<open>Properties of the two models\<close>

text \<open>
  C8. In both models the \<^verbatim>\<open>flow_accumulation\<close> output is the accumulation map of
  \<^verbatim>\<open>r.watershed\<close> multiplied, cell by cell, by the resolution \<^verbatim>\<open>nsres\<close> of the region
  (a NULL cell stays NULL). The names given by the user are assumed not to clash: the
  three outputs differ, no factor map is an output, and none of them is a scratch name.
\<close>

theorem flow_accumulation_output:
  fixes eng :: engine and ws :: mapset and m n :: real and z R K C :: raster
  assumes "ws elevation = Some z" and "ws r_factor = Some R" and "ws k_factor = Some K"
    and "ws c_factor = Some C"
    and "distinct [erosion, flow_accumulation, ls_factor]"
    and "set [r_factor, k_factor, c_factor] \<inter> set [flow_accumulation, ls_factor] = {}"
    and "set [elevation, r_factor, k_factor, c_factor, erosion, flow_accumulation, ls_factor]
           \<inter> set [''slope'', ''aspect'', ''flowacc'', ''qsx'', ''qsy'', ''qsxdx'', ''qsydy'',
                  ''grow_slope'', ''grow_aspect'', ''grow_qsxdx'', ''grow_qsydy'',
                  ''sedflow'', ''sediment_flux''] = {}"
  shows "(\<exists>ws'. rusle eng elevation erosion flow_accumulation r_factor c_factor k_factor ls_factor m n ws
                  = (Inr (), ws')
            \<and> ws' flow_accumulation
                = Some (\<lambda>c. map_option (\<lambda>a. a * nsres eng) (accumulation_of eng z c)))
       \<and> (\<exists>ws'. usped eng elevation erosion flow_accumulation r_factor c_factor k_factor ls_factor m n ws
                  = (Inr (), ws')
            \<and> ws' flow_accumulation
                = Some (\<lambda>c. map_option (\<lambda>a. a * nsres eng) (accumulation_of eng z c)))"
proof
  show "\<exists>ws'. rusle eng elevation erosion flow_accumulation r_factor c_factor k_factor ls_factor m n ws
                  = (Inr (), ws')
            \<and> ws' flow_accumulation
                = Some (\<lambda>c. map_option (\<lambda>a. a * nsres eng) (accumulation_of eng z c))"
  proof -
    from assms(7) have "set [elevation, r_factor, k_factor, c_factor, erosion, flow_accumulation, ls_factor]
                \<inter> set [''slope'', ''grow_slope'', ''flowacc'', ''sedflow''] = {}"
      unfolding names_unfold by simp
    from rusle_steps [OF assms(1-6) this, of eng m n] show ?thesis
      by (auto simp add: lift2_times_const)
  qed
  show "\<exists>ws'. usped eng elevation erosion flow_accumulation r_factor c_factor k_factor ls_factor m n ws
                  = (Inr (), ws')
            \<and> ws' flow_accumulation
                = Some (\<lambda>c. map_option (\<lambda>a. a * nsres eng) (accumulation_of eng z c))"
    using usped_steps [OF assms, of eng m n]
    by (auto simp add: lift2_times_const)
qed

theorem flow_accumulation_output_witness:
  "example_maps ''elevation'' = Some example_elevation
   \<and> (\<exists>ws'. rusle flat_engine ''elevation'' ''erosion'' ''flow_accumulation'' ''r_factor''
               ''c_factor'' ''k_factor'' ''ls_factor'' 1.5 1.2 example_maps = (Inr (), ws')
         \<and> ws' ''flow_accumulation''
             = Some (\<lambda>c. map_option (\<lambda>a. a * nsres flat_engine)
                            (accumulation_of flat_engine example_elevation c)))
   \<and> (\<exists>ws'. usped flat_engine ''elevation'' ''erosion'' ''flow_accumulation'' ''r_factor''
               ''c_factor'' ''k_factor'' ''ls_factor'' 1.5 1.2 example_maps = (Inr (), ws')
         \<and> ws' ''flow_accumulation''
             = Some (\<lambda>c. map_option (\<lambda>a. a * nsres flat_engine)
                            (accumulation_of flat_engine example_elevation c)))"
  using flow_accumulation_output [OF example_maps_lookup example_names example_names_usped,
      where eng = flat_engine and m = "1.5" and n = "1.2"] example_maps_lookup(1)
  by blast



text \<open>
  C2, as the code has it. On flat terrain (slope 0 in every cell after the border is
  grown) and for \<open>n \<ge> 0\<close>, the \<^verbatim>\<open>ls_factor\<close> of \<^verbatim>\<open>rusle\<close> in a cell with a positive
  \<^verbatim>\<open>flow_accumulation\<close> output \<open>f\<close> is \<open>(m + 1) * (f / 22.1) ^ m * (sin 0 / 5.14) ^ n\<close>:
  that is \<open>(m + 1) * (f / 22.1) ^ m\<close> when \<open>n = 0\<close>, and 0 when \<open>n > 0\<close>.
\<close>

theorem rusle_ls_factor_flat_terrain:
  fixes eng :: engine and ws :: mapset and m n :: real and z R K C :: raster
  assumes "ws elevation = Some z" and "ws r_factor = Some R" and "ws k_factor = Some K"
    and "ws c_factor = Some C"
    and "distinct [erosion, flow_accumulation, ls_factor]"
    and "set [r_factor, k_factor, c_factor] \<inter> set [flow_accumulation, ls_factor] = {}"
    and "set [elevation, r_factor, k_factor, c_factor, erosion, flow_accumulation, ls_factor]
           \<inter> set [''slope'', ''grow_slope'', ''flowacc'', ''sedflow''] = {}"
    and flat: "grow_distance eng (slope_of eng z) = (\<lambda>c. Some 0)"
    and n: "0 \<le> n"
  shows "\<exists>ws' F L.
           rusle eng elevation erosion flow_accumulation r_factor c_factor k_factor ls_factor m n ws
             = (Inr (), ws')
         \<and> ws' flow_accumulation = Some F \<and> ws' ls_factor = Some L
         \<and> (\<forall>c f. F c = Some f \<and> 0 < f \<longrightarrow>
               L c = Some ((m + 1) * (f / 22.1) powr m * (if n = 0 then 1 else 0)))"
proof -
  from rusle_steps [OF assms(1-7), of eng m n]
  obtain ws' F L where run:
      "rusle eng elevation erosion flow_accumulation r_factor c_factor k_factor ls_factor m n ws
         = (Inr (), ws')"
    and F: "ws' flow_accumulation = Some F" and L: "ws' ls_factor = Some L"
    and Ll: "L = (\<lambda>c. lift2 (*)
                    (lift2 (*) (Some (m + 1)) (pow_cell (div_cell (F c) (Some 22.1)) (Some m)))
                    (pow_cell (div_cell (map_option sin_deg
                        (grow_distance eng (slope_of eng z) c)) (Some 5.14)) (Some n)))"
    by blast
  have "L c = Some ((m + 1) * (f / 22.1) powr m * (if n = 0 then 1 else 0))"
    if "F c = Some f \<and> 0 < f" for c f
  proof -
    from that have "0 < f / 22.1" by simp
    then have "pow_real (f / 22.1) m = Some ((f / 22.1) powr m)"
      by (rule pow_real_pos)
    with that show ?thesis
      by (simp add: Ll flat sin_deg_def div_cell_def pow_cell_def lift2_def pow_real_zero [OF n])
  qed
  with run F L show ?thesis
    by blast
qed

theorem rusle_ls_factor_flat_terrain_witness:
  "grow_distance flat_engine (slope_of flat_engine example_elevation) = (\<lambda>c. Some 0)
   \<and> (0::real) \<le> 1.2
   \<and> (\<exists>ws' F L.
         rusle flat_engine ''elevation'' ''erosion'' ''flow_accumulation'' ''r_factor''
           ''c_factor'' ''k_factor'' ''ls_factor'' 1.5 1.2 example_maps = (Inr (), ws')
       \<and> ws' ''flow_accumulation'' = Some F \<and> ws' ''ls_factor'' = Some L
       \<and> (\<forall>c f. F c = Some f \<and> 0 < f \<longrightarrow>
             L c = Some ((1.5 + 1) * (f / 22.1) powr 1.5 * (if (1.2::real) = 0 then 1 else 0))))"
proof -
  have flat: "grow_distance flat_engine (slope_of flat_engine example_elevation) = (\<lambda>c. Some 0)"
    by (simp add: flat_engine_simps level_def)
  have n: "(0::real) \<le> 1.2"
    by simp
  from rusle_ls_factor_flat_terrain [OF example_maps_lookup example_names example_names_rusle
      flat n, where m = "1.5"] flat n
  show ?thesis
    by blast
qed

text \<open>
  C2, as stated, fails: on the flat example, with the default exponents \<open>m = 1.5\<close> and
  \<open>n = 1.2\<close>, the \<^verbatim>\<open>flow_accumulation\<close> output is 1 and \<^verbatim>\<open>ls_factor\<close> is 0 in the cell
  \<open>(0, 0)\<close>, not \<open>(1.5 + 1) * (1 / 22.1) ^ 1.5\<close>.
\<close>

theorem rusle_ls_factor_flat_counterexample:
  "grow_distance flat_engine (slope_of flat_engine example_elevation) = level 0
   \<and> fst (rusle flat_engine ''elevation'' ''erosion'' ''flow_accumulation'' ''r_factor''
            ''c_factor'' ''k_factor'' ''ls_factor'' 1.5 1.2 example_maps) = Inr ()
   \<and> eval (snd (rusle flat_engine ''elevation'' ''erosion'' ''flow_accumulation'' ''r_factor''
                  ''c_factor'' ''k_factor'' ''ls_factor'' 1.5 1.2 example_maps))
        (Map ''flow_accumulation'') (0, 0) = Some 1
   \<and> eval (snd (rusle flat_engine ''elevation'' ''erosion'' ''flow_accumulation'' ''r_factor''
                  ''c_factor'' ''k_factor'' ''ls_factor'' 1.5 1.2 example_maps))
        (Map ''ls_factor'') (0, 0) = Some 0
   \<and> eval (snd (rusle flat_engine ''elevation'' ''erosion'' ''flow_accumulation'' ''r_factor''
                  ''c_factor'' ''k_factor'' ''ls_factor'' 1.5 1.2 example_maps))
        (Map ''ls_factor'') (0, 0) \<noteq> Some ((1.5 + 1) * (1 / 22.1) powr 1.5)"
proof -
  from rusle_steps [OF example_maps_lookup example_names example_names_rusle,
      where eng = flat_engine and m = "1.5" and n = "1.2"]
  obtain ws' where run:
      "rusle flat_engine ''elevation'' ''erosion'' ''flow_accumulation'' ''r_factor''
         ''c_factor'' ''k_factor'' ''ls_factor'' 1.5 1.2 example_maps = (Inr (), ws')"
    and F: "ws' ''flow_accumulation''
              = Some (\<lambda>c. lift2 (*) (accumulation_of flat_engine example_elevation c)
                               (Some (nsres flat_engine)))"
    and L: "ws' ''ls_factor'' = Some (\<lambda>c. lift2 (*)
              (lift2 (*) (Some (1.5 + 1))
                 (pow_cell (div_cell (lift2 (*) (accumulation_of flat_engine example_elevation c)
                               (Some (nsres flat_engine))) (Some 22.1)) (Some 1.5)))
              (pow_cell (div_cell (map_option sin_deg
                  (grow_distance flat_engine (slope_of flat_engine example_elevation) c))
                    (Some 5.14)) (Some 1.2)))"
    by blast
  have p1: "pow_real (1 / 22.1) 1.5 = Some ((1 / 22.1) powr 1.5)"
    by (rule pow_real_pos) simp
  have p0: "pow_real 0 1.2 = Some 0"
    using pow_real_zero [of "1.2"] by simp
  have fa: "eval ws' (Map ''flow_accumulation'') (0, 0) = Some 1"
    by (simp add: F flat_engine_simps level_def lift2_def)
  have ls: "eval ws' (Map ''ls_factor'') (0, 0) = Some 0"
    using p1 p0
    by (simp add: L flat_engine_simps level_def lift2_def div_cell_def pow_cell_def sin_deg_def)
  have "(1.5 + 1) * (1 / 22.1) powr 1.5 \<noteq> (0::real)"
    by simp
  with ls have ne: "eval ws' (Map ''ls_factor'') (0, 0) \<noteq> Some ((1.5 + 1) * (1 / 22.1) powr 1.5)"
    by simp
  have flat: "grow_distance flat_engine (slope_of flat_engine example_elevation) = level 0"
    by (simp add: flat_engine_simps)
  from flat fa ls ne show ?thesis
    by (simp only: run fst_conv snd_conv) simp
qed





section \<open>Properties of the script\<close>




text \<open>
  C3 at a failing run: with \<^verbatim>\<open>rain_intensity=50\<close> and no \<^verbatim>\<open>rain_duration\<close> the run ends
  with an uncaught \<^verbatim>\<open>CalledModuleError\<close>, before \<^verbatim>\<open>atexit.register(cleanup)\<close> is
  reached: \<^verbatim>\<open>cleanup\<close> is not called at all.
\<close>

theorem cleanup_skipped_after_failure:
  "opt_rain_intensity intensity_only = Some 50
   \<and> opt_rain_duration intensity_only = None
   \<and> exit_status (run_script flat_engine intensity_only bare_maps) = Uncaught CalledModuleError
   \<and> cleanup_calls (run_script flat_engine intensity_only bare_maps) = 0"
  by (simp add: run_script_def main_intensity_only)
    (simp add: intensity_only_def answers_simps)

text \<open>
  C4 at a failing step: when the expression for \<^verbatim>\<open>rain_volume\<close> is rejected,
  \<^verbatim>\<open>event_based_r_factor\<close> leaves \<^verbatim>\<open>rain_energy\<close> in the mapset, and it is still there
  when the run has ended.
\<close>

theorem scratch_left_after_failure:
  "fst (event_based_r_factor flat_engine (Lit 50) Blank bare_maps) = Inl CalledModuleError
   \<and> snd (event_based_r_factor flat_engine (Lit 50) Blank bare_maps) ''rain_energy'' \<noteq> None
   \<and> final_maps (run_script flat_engine intensity_only bare_maps) ''rain_energy'' \<noteq> None"
  by (simp add: run_script_def main_intensity_only event_without_duration)

end
